theory Spec2Isabelle
  imports Complex_Main "HOL-Library.Word"
begin

section \<open>JavaScript values of the adapter\<close>

text \<open>
  A JavaScript string is a sequence of UTF-16 code units and \<open>.length\<close> counts them, so
  a string is a list of 16-bit words. \<open>lit\<close> writes an ASCII literal of the source as
  such a list.
\<close>

type_synonym jsstring = "16 word list"

definition lit :: "string \<Rightarrow> jsstring" where
  "lit s = map (\<lambda>c. of_nat (of_char c)) s"

text \<open>
  \<open>ContentListUnion\<close>, \<open>ContentUnion\<close> and \<open>PartUnion\<close> of \<open>@google/genai\<close> are erased
  at run time; what the adapter tests with \<open>typeof\<close>, \<open>Array.isArray\<close> and \<open>in\<close> is the
  value itself. The values those types admit are strings, arrays and objects; of an
  object the adapter reads only \<open>parts\<close> (an array when present), \<open>role\<close> and \<open>text\<close>
  (strings when present). \<open>None\<close> is an absent (or undefined) field.
\<close>

datatype jsvalue =
    JString jsstring
  | JArray "jsvalue list"
  | JObject (parts_of: "jsvalue list option") (role_of: "jsstring option")
      (text_of: "jsstring option")

datatype FinishReason = STOP | MAX_TOKENS | SAFETY | OTHER

section \<open>Finish reasons\<close>

text \<open>
  \<open>convertFinishReason(reason: string | null)\<close>: \<open>None\<close> is \<open>null\<close> (or an absent
  field), the result \<open>None\<close> is \<open>undefined\<close>. \<open>!reason\<close> holds for \<open>null\<close> and for
  the empty string.
\<close>

definition convertFinishReason :: "jsstring option \<Rightarrow> FinishReason option" where
  "convertFinishReason reason =
     (case reason of
        None \<Rightarrow> None
      | Some r \<Rightarrow>
          if r = [] then None
          else if r = lit ''stop'' then Some STOP
          else if r = lit ''length'' then Some MAX_TOKENS
          else if r = lit ''content_filter'' then Some SAFETY
          else Some OTHER)"

section \<open>Request conversion\<close>

text \<open>JavaScript truthiness of the values above: only the empty string is falsy.\<close>

definition truthy :: "jsvalue \<Rightarrow> bool" where
  "truthy v = (case v of JString s \<Rightarrow> s \<noteq> [] | JArray _ \<Rightarrow> True | JObject _ _ _ \<Rightarrow> True)"

definition extractTextFromPart :: "jsvalue \<Rightarrow> jsstring" where
  "extractTextFromPart part =
     (case part of
        JString s \<Rightarrow> s
      | JArray _ \<Rightarrow> []
      | JObject _ _ t \<Rightarrow> (case t of Some s \<Rightarrow> if s \<noteq> [] then s else [] | None \<Rightarrow> []))"

text \<open>\<open>parts.map(extractTextFromPart).filter(text => text).join('')\<close>\<close>

definition joinPartTexts :: "jsvalue list \<Rightarrow> jsstring" where
  "joinPartTexts ps = concat (filter (\<lambda>text. text \<noteq> []) (map extractTextFromPart ps))"

definition extractTextFromContent :: "jsvalue \<Rightarrow> jsstring" where
  "extractTextFromContent content =
     (case content of
        JString s \<Rightarrow> s
      | JArray ps \<Rightarrow> joinPartTexts ps
      | JObject ps _ _ \<Rightarrow> (case ps of Some qs \<Rightarrow> joinPartTexts qs | None \<Rightarrow> []))"

definition extractRoleFromContent :: "jsvalue \<Rightarrow> jsstring" where
  "extractRoleFromContent content =
     (case content of
        JObject _ r _ \<Rightarrow> (case r of Some role \<Rightarrow> role | None \<Rightarrow> lit ''user'')
      | JString _ \<Rightarrow> lit ''user''
      | JArray _ \<Rightarrow> lit ''user'')"

record ChatMessage =
  msg_role :: jsstring
  msg_content :: jsstring

record GenerateContentConfig =
  systemInstruction :: "jsvalue option"

text \<open>
  \<open>CountTokensParameters\<close> and \<open>EmbedContentParameters\<close> are read for their
  \<open>contents\<close> only; \<open>GenerateContentParameters\<close> also for \<open>config\<close>.
\<close>

record ContentsParameters =
  contents :: jsvalue

record GenerateContentParameters = ContentsParameters +
  config :: "GenerateContentConfig option"

text \<open>The body shared by both branches of the source: extract, then push when \<open>text\<close> is truthy.\<close>

definition pushContent :: "ChatMessage list \<Rightarrow> jsvalue \<Rightarrow> ChatMessage list" where
  "pushContent messages content =
     (let text = extractTextFromContent content;
          role = extractRoleFromContent content
      in if text \<noteq> []
         then messages @
           [\<lparr>msg_role = (if role = lit ''model'' then lit ''assistant'' else lit ''user''),
             msg_content = text\<rparr>]
         else messages)"

definition pushSystemInstruction :: "ChatMessage list \<Rightarrow> GenerateContentParameters \<Rightarrow> ChatMessage list" where
  "pushSystemInstruction messages request =
     (case config request of
        None \<Rightarrow> messages
      | Some cfg \<Rightarrow>
          (case systemInstruction cfg of
             None \<Rightarrow> messages
           | Some si \<Rightarrow>
               if truthy si
               then (let systemContent = extractTextFromContent si
                     in if systemContent \<noteq> []
                        then messages @ [\<lparr>msg_role = lit ''system'', msg_content = systemContent\<rparr>]
                        else messages)
               else messages))"

definition convertToOpenAIMessages :: "GenerateContentParameters \<Rightarrow> ChatMessage list" where
  "convertToOpenAIMessages request =
     (let messages = pushSystemInstruction [] request
      in case contents request of
           JArray cs \<Rightarrow> foldl pushContent messages cs
         | JString s \<Rightarrow> if truthy (JString s) then pushContent messages (JString s) else messages
         | JObject ps r t \<Rightarrow> pushContent messages (JObject ps r t))"

section \<open>Response conversion\<close>

record Candidate =
  cand_content :: jsvalue
  finishReason :: "FinishReason option"
  index :: nat

record UsageMetadata =
  promptTokenCount :: nat
  candidatesTokenCount :: nat
  totalTokenCount :: nat

record GenerateContentResponse =
  candidates :: "Candidate list"
  usageMetadata :: "UsageMetadata option"

record Choice =
  message_content :: "jsstring option"
  finish_reason :: "jsstring option"

record CompletionUsage =
  prompt_tokens :: nat
  completion_tokens :: nat
  total_tokens :: nat

record ChatCompletion =
  choices :: "Choice list"
  usage :: "CompletionUsage option"

text \<open>
  What the adapter's functions throw or receive from the vendor call: an instance of
  \<open>OpenAI.APIError\<close> (message and status), any other \<open>Error\<close> (message), or a value
  that is no \<open>Error\<close>, kept as its \<open>String(...)\<close> rendering.
\<close>

datatype thrown =
    APIError jsstring "nat option"
  | JsError jsstring
  | NonError jsstring

text \<open>
  Reading \<open>.message\<close> of \<open>undefined\<close> raises a \<open>TypeError\<close>; the text is the one of V8,
  the engine of Node.js.
\<close>

definition undefinedMessageError :: thrown where
  "undefinedMessageError =
     JsError (lit ''Cannot read properties of undefined (reading '' @ [0x27] @
              lit ''message'' @ [0x27] @ lit '')'')"

definition undefinedDeltaError :: thrown where
  "undefinedDeltaError =
     JsError (lit ''Cannot read properties of undefined (reading '' @ [0x27] @
              lit ''delta'' @ [0x27] @ lit '')'')"

text \<open>\<open>x || ''\<close> on a string, \<open>null\<close> or \<open>undefined\<close>\<close>

definition orEmpty :: "jsstring option \<Rightarrow> jsstring" where
  "orEmpty x = (case x of Some s \<Rightarrow> if s \<noteq> [] then s else [] | None \<Rightarrow> [])"

definition modelContent :: "jsstring \<Rightarrow> jsvalue" where
  "modelContent text = JObject (Some [JObject None None (Some text)]) (Some (lit ''model'')) None"

definition convertToGeminiResponse :: "ChatCompletion \<Rightarrow> thrown + GenerateContentResponse" where
  "convertToGeminiResponse response =
     (case choices response of
        [] \<Rightarrow> Inl undefinedMessageError
      | choice # _ \<Rightarrow>
          Inr \<lparr>candidates =
                 [\<lparr>cand_content = modelContent (orEmpty (message_content choice)),
                   finishReason = convertFinishReason (finish_reason choice),
                   index = 0\<rparr>],
               usageMetadata =
                 (case usage response of
                    None \<Rightarrow> None
                  | Some u \<Rightarrow>
                      Some \<lparr>promptTokenCount = prompt_tokens u,
                            candidatesTokenCount = completion_tokens u,
                            totalTokenCount = total_tokens u\<rparr>)\<rparr>)"

section \<open>Errors\<close>

text \<open>\<open>String(n)\<close> for a status code, a non-negative integer: its decimal digits.\<close>

function decimal :: "nat \<Rightarrow> jsstring" where
  "decimal n = (if n < 10 then [of_nat (48 + n)] else decimal (n div 10) @ [of_nat (48 + n mod 10)])"
  by pat_completeness auto
termination
  by (relation "measure id") auto

declare decimal.simps [simp del]

text \<open>\<open>${error.status}\<close>: the status of an \<open>APIError\<close> is a number or \<open>undefined\<close>.\<close>

definition statusText :: "nat option \<Rightarrow> jsstring" where
  "statusText st = (case st of Some n \<Rightarrow> decimal n | None \<Rightarrow> lit ''undefined'')"

definition handleError :: "thrown \<Rightarrow> thrown" where
  "handleError error =
     (case error of
        APIError message st \<Rightarrow>
          JsError (lit ''OpenAI API Error: '' @ message @ lit '' ('' @ statusText st @ lit '')'')
      | JsError message \<Rightarrow> JsError message
      | NonError s \<Rightarrow> JsError (lit ''Unknown OpenAI error: '' @ s))"

text \<open>\<open>error instanceof Error ? error.message : String(error)\<close>\<close>

definition errorText :: "thrown \<Rightarrow> jsstring" where
  "errorText error =
     (case error of APIError message _ \<Rightarrow> message | JsError message \<Rightarrow> message | NonError s \<Rightarrow> s)"

text \<open>
  The prefixes of the two generation paths, \<open>OpenAI API\<close> and \<open>OpenAI\<close>, each followed by
  CJK characters of the source literal, written here as their code units, then \<open>: \<close>.
\<close>

definition generatePrefix :: jsstring where
  "generatePrefix = lit ''OpenAI API'' @ [0x8C03, 0x7528, 0x5931, 0x8D25] @ lit '': ''"

definition streamPrefix :: jsstring where
  "streamPrefix =
     lit ''OpenAI'' @ [0x6D41, 0x5F0F] @ lit ''API'' @ [0x8C03, 0x7528, 0x5931, 0x8D25] @ lit '': ''"

section \<open>The vendor client and the adapter\<close>

record 'n Embedding =
  embedding :: "'n list"

record 'n CreateEmbeddingResponse =
  data :: "'n Embedding list"

record Delta =
  delta_content :: "jsstring option"

record ChunkChoice =
  delta :: "Delta option"
  chunk_finish_reason :: "jsstring option"

record ChatCompletionChunk =
  chunk_choices :: "ChunkChoice list option"

text \<open>
  The calls of the vendor SDK the adapter makes, as functions of their arguments:
  \<open>chat.completions.create\<close> without and with \<open>stream: true\<close> (model, messages) and
  \<open>embeddings.create\<close> (model, input). A call returns or throws (\<open>Inl\<close>). A stream is
  the chunks it delivers, then its normal end (\<open>None\<close>) or the value it throws.
\<close>

record 'n OpenAI =
  chat_create :: "jsstring \<Rightarrow> ChatMessage list \<Rightarrow> thrown + ChatCompletion"
  chat_stream ::
    "jsstring \<Rightarrow> ChatMessage list \<Rightarrow> thrown + ChatCompletionChunk list \<times> thrown option"
  embeddings_create :: "jsstring \<Rightarrow> jsstring \<Rightarrow> thrown + 'n CreateEmbeddingResponse"

record 'n OpenAIContentGenerator =
  client :: "'n OpenAI"
  model :: jsstring
  embeddingModel :: jsstring

section \<open>generateContent\<close>

definition generateContent ::
  "'n OpenAIContentGenerator \<Rightarrow> GenerateContentParameters \<Rightarrow> thrown + GenerateContentResponse" where
  "generateContent this request =
     (let messages = convertToOpenAIMessages request;
          attempt = (case chat_create (client this) (model this) messages of
                       Inl error \<Rightarrow> Inl error
                     | Inr response \<Rightarrow> convertToGeminiResponse response)
      in case attempt of
           Inl error \<Rightarrow> Inl (JsError (generatePrefix @ errorText error))
         | Inr result \<Rightarrow> Inr result)"

section \<open>generateContentStream\<close>

definition convertStreamChunkToGeminiResponse ::
  "ChatCompletionChunk \<Rightarrow> thrown + GenerateContentResponse" where
  "convertStreamChunkToGeminiResponse chunk =
     (case chunk_choices chunk of
        None \<Rightarrow> Inl undefinedDeltaError
      | Some [] \<Rightarrow> Inl undefinedDeltaError
      | Some (choice # _) \<Rightarrow>
          Inr \<lparr>candidates =
                 [\<lparr>cand_content =
                     modelContent
                       (orEmpty (case delta choice of None \<Rightarrow> None | Some d \<Rightarrow> delta_content d)),
                   finishReason = convertFinishReason (chunk_finish_reason choice),
                   index = 0\<rparr>],
               usageMetadata = None\<rparr>)"

text \<open>\<open>choice.delta?.content\<close> is truthy\<close>

definition deltaHasContent :: "ChunkChoice \<Rightarrow> bool" where
  "deltaHasContent choice =
     (case delta choice of
        None \<Rightarrow> False
      | Some d \<Rightarrow> (case delta_content d of None \<Rightarrow> False | Some s \<Rightarrow> s \<noteq> []))"

text \<open>
  The \<open>for await\<close> loop of the generator, run to its end: the responses it yields in
  order, then \<open>None\<close> when it ends normally or the value thrown inside the \<open>try\<close>.
\<close>

fun streamLoop ::
  "ChatCompletionChunk list \<Rightarrow> thrown option \<Rightarrow> GenerateContentResponse list \<times> thrown option" where
  "streamLoop [] ending = ([], ending)"
| "streamLoop (chunk # rest) ending =
     (case chunk_choices chunk of
        None \<Rightarrow> streamLoop rest ending
      | Some [] \<Rightarrow> streamLoop rest ending
      | Some (choice # _) \<Rightarrow>
          if deltaHasContent choice
          then (case convertStreamChunkToGeminiResponse chunk of
                  Inl error \<Rightarrow> ([], Some error)
                | Inr response \<Rightarrow>
                    (case streamLoop rest ending of (yielded, e) \<Rightarrow> (response # yielded, e)))
          else streamLoop rest ending)"

definition generateContentStream ::
  "'n OpenAIContentGenerator \<Rightarrow> GenerateContentParameters \<Rightarrow>
     GenerateContentResponse list \<times> thrown option" where
  "generateContentStream this request =
     (let messages = convertToOpenAIMessages request
      in case chat_stream (client this) (model this) messages of
           Inl error \<Rightarrow> ([], Some (JsError (streamPrefix @ errorText error)))
         | Inr (chunks, ending) \<Rightarrow>
             (case streamLoop chunks ending of
                (yielded, None) \<Rightarrow> (yielded, None)
              | (yielded, Some error) \<Rightarrow>
                  (yielded, Some (JsError (streamPrefix @ errorText error)))))"

section \<open>countTokens\<close>

text \<open>\<open>Array.isArray(request.contents) ? request.contents : [request.contents]\<close>\<close>

definition contentsArray :: "jsvalue \<Rightarrow> jsvalue list" where
  "contentsArray c = (case c of JArray cs \<Rightarrow> cs | JString s \<Rightarrow> [JString s] | JObject ps r t \<Rightarrow> [JObject ps r t])"

text \<open>
  The inner loop body: \<open>typeof part === 'object' && part && 'text' in part && part.text\<close>
  holds of an object with a non-empty \<open>text\<close> only.
\<close>

definition appendPartText :: "jsstring \<Rightarrow> jsvalue \<Rightarrow> jsstring" where
  "appendPartText text part =
     (case part of
        JObject _ _ t \<Rightarrow>
          (case t of Some s \<Rightarrow> if s \<noteq> [] then text @ s @ lit '' '' else text | None \<Rightarrow> text)
      | JString _ \<Rightarrow> text
      | JArray _ \<Rightarrow> text)"

text \<open>
  The outer loop body: \<open>typeof content === 'object' && 'parts' in content && content.parts\<close>
  holds of an object with a \<open>parts\<close> array only (an array has no \<open>parts\<close>).
\<close>

definition appendContentText :: "jsstring \<Rightarrow> jsvalue \<Rightarrow> jsstring" where
  "appendContentText text content =
     (case content of
        JObject ps _ _ \<Rightarrow> (case ps of Some qs \<Rightarrow> foldl appendPartText text qs | None \<Rightarrow> text)
      | JString _ \<Rightarrow> text
      | JArray _ \<Rightarrow> text)"

definition extractTextFromRequest :: "ContentsParameters \<Rightarrow> jsstring" where
  "extractTextFromRequest request = foldl appendContentText [] (contentsArray (contents request))"

record CountTokensResponse =
  totalTokens :: nat

text \<open>
  \<open>Math.ceil(text.length / 4)\<close>: a length is below \<open>2^53\<close> and a quarter of it is exact in
  a double, so the quotient is the rational one. Nothing in the \<open>try\<close> block raises on the
  values modelled, so the \<open>catch\<close> is never entered.
\<close>

definition countTokens :: "'n OpenAIContentGenerator \<Rightarrow> ContentsParameters \<Rightarrow> thrown + CountTokensResponse" where
  "countTokens this request =
     (let text = extractTextFromRequest request;
          estimatedTokens = nat \<lceil>real (length text) / 4\<rceil>
      in Inr \<lparr>totalTokens = estimatedTokens\<rparr>)"

section \<open>embedContent\<close>

text \<open>The two loops with their \<open>return part.text\<close>: \<open>Some\<close> is the value returned from inside.\<close>

fun firstTextOfParts :: "jsvalue list \<Rightarrow> jsstring option" where
  "firstTextOfParts [] = None"
| "firstTextOfParts (part # rest) =
     (case part of
        JObject _ _ t \<Rightarrow>
          (case t of
             Some s \<Rightarrow> if s \<noteq> [] then Some s else firstTextOfParts rest
           | None \<Rightarrow> firstTextOfParts rest)
      | JString _ \<Rightarrow> firstTextOfParts rest
      | JArray _ \<Rightarrow> firstTextOfParts rest)"

fun firstTextOfContents :: "jsvalue list \<Rightarrow> jsstring option" where
  "firstTextOfContents [] = None"
| "firstTextOfContents (content # rest) =
     (case content of
        JObject ps _ _ \<Rightarrow>
          (case ps of
             Some qs \<Rightarrow>
               (case firstTextOfParts qs of
                  Some s \<Rightarrow> Some s
                | None \<Rightarrow> firstTextOfContents rest)
           | None \<Rightarrow> firstTextOfContents rest)
      | JString _ \<Rightarrow> firstTextOfContents rest
      | JArray _ \<Rightarrow> firstTextOfContents rest)"

definition extractTextFromEmbedRequest :: "ContentsParameters \<Rightarrow> jsstring" where
  "extractTextFromEmbedRequest request =
     (case firstTextOfContents (contentsArray (contents request)) of
        Some s \<Rightarrow> s
      | None \<Rightarrow> [])"

record 'n ContentEmbedding =
  embedding_values :: "'n list"

record 'n EmbedContentResponse =
  embeddings :: "'n ContentEmbedding list"

definition embedContent ::
  "'n OpenAIContentGenerator \<Rightarrow> ContentsParameters \<Rightarrow> thrown + 'n EmbedContentResponse" where
  "embedContent this request =
     (let text = extractTextFromEmbedRequest request
      in case embeddings_create (client this) (embeddingModel this) text of
           Inl error \<Rightarrow> Inl (handleError error)
         | Inr response \<Rightarrow>
             Inr \<lparr>embeddings =
                    [\<lparr>embedding_values =
                        (case data response of [] \<Rightarrow> [] | d # _ \<Rightarrow> embedding d)\<rparr>]\<rparr>)"

section \<open>The adapter factory\<close>

text \<open>The members of \<open>enum LLMProvider\<close> are their string values.\<close>

definition GEMINI :: jsstring where "GEMINI = lit ''gemini''"
definition OPENAI :: jsstring where "OPENAI = lit ''openai''"
definition VERTEX_AI :: jsstring where "VERTEX_AI = lit ''vertex-ai''"

text \<open>\<open>Object.entries(SUPPORTED_MODELS)\<close>: the keys in insertion order, each with its models.\<close>

definition SUPPORTED_MODELS :: "(jsstring \<times> jsstring list) list" where
  "SUPPORTED_MODELS =
     [(GEMINI, [lit ''gemini-2.5-pro'', lit ''gemini-2.5-flash'', lit ''gemini-1.5-pro'',
                lit ''gemini-1.5-flash'']),
      (OPENAI, [lit ''gpt-4'', lit ''gpt-4-turbo'', lit ''gpt-4o'', lit ''gpt-4o-mini'',
                lit ''gpt-3.5-turbo'']),
      (VERTEX_AI, [lit ''gemini-2.5-pro'', lit ''gemini-2.5-flash'', lit ''gemini-1.5-pro'',
                   lit ''gemini-1.5-flash''])]"

text \<open>The \<open>for ... of\<close> loop of \<open>inferProviderFromModel\<close>; \<open>None\<close> is \<open>null\<close>.\<close>

fun inferLoop :: "(jsstring \<times> jsstring list) list \<Rightarrow> jsstring \<Rightarrow> jsstring option" where
  "inferLoop [] m = None"
| "inferLoop ((provider, models) # rest) m =
     (if List.member models m then Some provider else inferLoop rest m)"

definition inferProviderFromModel :: "jsstring \<Rightarrow> jsstring option" where
  "inferProviderFromModel m = inferLoop SUPPORTED_MODELS m"

definition getSupportedProviders :: "jsstring list" where
  "getSupportedProviders = [GEMINI, OPENAI, VERTEX_AI]"

text \<open>
  \<open>validateConfig\<close> is written for configurations that need not conform to
  \<open>AdapterConfig\<close>: each of the three fields read is a string or missing (\<open>None\<close>).
\<close>

record AdapterConfig =
  provider :: "jsstring option"
  apiKey :: "jsstring option"
  config_model :: "jsstring option"

text \<open>\<open>!x\<close> on a string or \<open>undefined\<close>\<close>

definition falsy :: "jsstring option \<Rightarrow> bool" where
  "falsy x = (case x of None \<Rightarrow> True | Some s \<Rightarrow> s = [])"

record ValidationResult =
  valid :: bool
  errors :: "jsstring list"

definition validateConfig :: "AdapterConfig \<Rightarrow> ValidationResult" where
  "validateConfig cfg =
     (let errors0 = [];
          errors1 = (if falsy (provider cfg) then errors0 @ [lit ''Provider is required''] else errors0);
          errors2 = (if falsy (apiKey cfg) then errors1 @ [lit ''API key is required''] else errors1);
          errors3 = (if falsy (config_model cfg) then errors2 @ [lit ''Model is required''] else errors2);
          errors4 =
            (case provider cfg of
               None \<Rightarrow> errors3
             | Some p \<Rightarrow>
                 if p \<noteq> [] \<and> \<not> List.member getSupportedProviders p
                 then errors3 @ [lit ''Unsupported provider: '' @ p]
                 else errors3)
      in \<lparr>valid = (length errors4 = 0), errors = errors4\<rparr>)"

section \<open>The request conversion in the words of the specification\<close>

text \<open>The role of a content is \<open>model\<close>: only an object has a role.\<close>

definition hasModelRole :: "jsvalue \<Rightarrow> bool" where
  "hasModelRole content =
     (case content of
        JObject _ r _ \<Rightarrow> (case r of Some role \<Rightarrow> role = lit ''model'' | None \<Rightarrow> False)
      | JString _ \<Rightarrow> False
      | JArray _ \<Rightarrow> False)"

text \<open>One system message when the system instruction is present and its text is non-empty.\<close>

definition spec_systemMessages :: "GenerateContentParameters \<Rightarrow> ChatMessage list" where
  "spec_systemMessages request =
     (case config request of
        None \<Rightarrow> []
      | Some cfg \<Rightarrow>
          (case systemInstruction cfg of
             None \<Rightarrow> []
           | Some si \<Rightarrow>
               if extractTextFromContent si = [] then []
               else [\<lparr>msg_role = lit ''system'', msg_content = extractTextFromContent si\<rparr>]))"

text \<open>
  No message for a content whose text is empty; otherwise one message, of role
  \<open>assistant\<close> when the content's role is \<open>model\<close> and \<open>user\<close> in every other case.
\<close>

definition spec_contentMessages :: "jsvalue \<Rightarrow> ChatMessage list" where
  "spec_contentMessages content =
     (if extractTextFromContent content = [] then []
      else [\<lparr>msg_role = (if hasModelRole content then lit ''assistant'' else lit ''user''),
             msg_content = extractTextFromContent content\<rparr>])"

section \<open>The text of a request in the words of the specification\<close>

text \<open>The text a part contributes: the non-empty \<open>text\<close> of an object, nothing otherwise.\<close>

definition partTexts :: "jsvalue \<Rightarrow> jsstring list" where
  "partTexts part =
     (case part of
        JObject _ _ t \<Rightarrow> (case t of Some s \<Rightarrow> if s \<noteq> [] then [s] else [] | None \<Rightarrow> [])
      | JString _ \<Rightarrow> []
      | JArray _ \<Rightarrow> [])"

text \<open>The texts of the parts of a content, in order; only an object has parts.\<close>

definition contentTexts :: "jsvalue \<Rightarrow> jsstring list" where
  "contentTexts content =
     (case content of
        JObject ps _ _ \<Rightarrow> (case ps of Some qs \<Rightarrow> concat (map partTexts qs) | None \<Rightarrow> [])
      | JString _ \<Rightarrow> []
      | JArray _ \<Rightarrow> [])"

text \<open>The non-empty texts of a request, scanning its contents and their parts in order.\<close>

definition requestTexts :: "ContentsParameters \<Rightarrow> jsstring list" where
  "requestTexts request = concat (map contentTexts (contentsArray (contents request)))"

text \<open>Space-joined, as \<open>texts.join(' ')\<close>: one space between neighbours.\<close>

fun spec_spaceJoined :: "jsstring list \<Rightarrow> jsstring" where
  "spec_spaceJoined [] = []"
| "spec_spaceJoined [s] = s"
| "spec_spaceJoined (s # t # rest) = s @ lit '' '' @ spec_spaceJoined (t # rest)"

text \<open>Each text followed by one space.\<close>

abbreviation spaced :: "jsstring list \<Rightarrow> jsstring" where
  "spaced ts \<equiv> concat (map (\<lambda>s. s @ lit '' '') ts)"

text \<open>A content entry that is an object carrying a \<open>parts\<close> array.\<close>

definition carriesParts :: "jsvalue \<Rightarrow> bool" where
  "carriesParts content =
     (case content of
        JObject ps _ _ \<Rightarrow> (case ps of Some _ \<Rightarrow> True | None \<Rightarrow> False)
      | JString _ \<Rightarrow> False
      | JArray _ \<Rightarrow> False)"

definition isBareString :: "jsvalue \<Rightarrow> bool" where
  "isBareString content =
     (case content of JString _ \<Rightarrow> True | JArray _ \<Rightarrow> False | JObject _ _ _ \<Rightarrow> False)"

section \<open>The validation in the words of the specification\<close>

text \<open>
  The errors as C9 words them: "Provider is required" for a missing provider, "API key is
  required" and "Model is required" for a missing or empty key and model, "Unsupported
  provider" for a provider that is present and not in the registry.
\<close>

definition spec_validationErrors :: "AdapterConfig \<Rightarrow> jsstring list" where
  "spec_validationErrors cfg =
     (if provider cfg = None then [lit ''Provider is required''] else []) @
     (if apiKey cfg = None \<or> apiKey cfg = Some [] then [lit ''API key is required''] else []) @
     (if config_model cfg = None \<or> config_model cfg = Some [] then [lit ''Model is required'']
      else []) @
     (case provider cfg of
        None \<Rightarrow> []
      | Some p \<Rightarrow>
          if List.member getSupportedProviders p then []
          else [lit ''Unsupported provider: '' @ p])"

section \<open>Inputs of the scenarios\<close>

text \<open>A stream chunk with one choice: its incremental text and its finish reason.\<close>

definition textChunk :: "jsstring \<Rightarrow> jsstring option \<Rightarrow> ChatCompletionChunk" where
  "textChunk text reason =
     \<lparr>chunk_choices =
        Some [\<lparr>delta = Some \<lparr>delta_content = Some text\<rparr>, chunk_finish_reason = reason\<rparr>]\<rparr>"

text \<open>A response with one candidate and no usage metadata.\<close>

definition textResponse :: "jsstring \<Rightarrow> FinishReason option \<Rightarrow> GenerateContentResponse" where
  "textResponse text reason =
     \<lparr>candidates = [\<lparr>cand_content = modelContent text, finishReason = reason, index = 0\<rparr>],
      usageMetadata = None\<rparr>"

text \<open>\<open>{contents: [{role: 'user', parts: [{text: 'hi'}]}]}\<close>\<close>

definition hiRequest :: GenerateContentParameters where
  "hiRequest =
     \<lparr>contents =
        JArray [JObject (Some [JObject None None (Some (lit ''hi''))]) (Some (lit ''user'')) None],
      config = None\<rparr>"

text \<open>A native response with the one choice "hello", finished by "stop", and no usage.\<close>

definition stopCompletion :: ChatCompletion where
  "stopCompletion =
     \<lparr>choices = [\<lparr>message_content = Some (lit ''hello''), finish_reason = Some (lit ''stop'')\<rparr>],
      usage = None\<rparr>"

text \<open>A vendor client every call of which throws the given value.\<close>

definition failingClient :: "thrown \<Rightarrow> nat OpenAI" where
  "failingClient e =
     \<lparr>chat_create = (\<lambda>m ms. Inl e), chat_stream = (\<lambda>m ms. Inl e),
      embeddings_create = (\<lambda>m t. Inl e)\<rparr>"

text \<open>The adapter with the defaults of its constructor.\<close>

definition defaultGenerator :: "nat OpenAI \<Rightarrow> nat OpenAIContentGenerator" where
  "defaultGenerator c =
     \<lparr>client = c, model = lit ''gpt-4'', embeddingModel = lit ''text-embedding-ada-002''\<rparr>"

text \<open>\<open>{contents: [{role: 'user', parts: [{text: 'abcd'}]}]}\<close>\<close>

definition abcdRequest :: ContentsParameters where
  "abcdRequest =
     \<lparr>contents =
        JArray [JObject (Some [JObject None None (Some (lit ''abcd''))]) (Some (lit ''user'')) None]\<rparr>"

text \<open>\<open>{contents: [{parts: [{text: ''}]}]}\<close>\<close>

definition emptyTextRequest :: ContentsParameters where
  "emptyTextRequest = \<lparr>contents = JArray [JObject (Some [JObject None None (Some [])]) None None]\<rparr>"

text \<open>\<open>{contents: [{parts: [{text: ''}]}, {parts: [{text: 'x'}]}]}\<close>\<close>

definition emptyThenXRequest :: ContentsParameters where
  "emptyThenXRequest =
     \<lparr>contents =
        JArray [JObject (Some [JObject None None (Some [])]) None None,
                JObject (Some [JObject None None (Some (lit ''x''))]) None None]\<rparr>"

text \<open>\<open>{contents: ['hello', 'world']}\<close>\<close>

definition stringsRequest :: ContentsParameters where
  "stringsRequest = \<lparr>contents = JArray [JString (lit ''hello''), JString (lit ''world'')]\<rparr>"

text \<open>
  A vendor client whose embedding call answers the input "x" with two data entries and
  every other input with none.
\<close>

definition xEmbeddingClient :: "nat OpenAI" where
  "xEmbeddingClient =
     (failingClient (NonError []))
       \<lparr>embeddings_create :=
          (\<lambda>m t. if t = lit ''x'' then Inr \<lparr>data = [\<lparr>embedding = [1, 2, 3]\<rparr>, \<lparr>embedding = [4]\<rparr>]\<rparr>
                  else Inr \<lparr>data = []\<rparr>)\<rparr>"

text \<open>\<open>{provider: '', apiKey: 'sk-x', model: 'gpt-4'}\<close>\<close>

definition emptyProviderConfig :: AdapterConfig where
  "emptyProviderConfig =
     \<lparr>provider = Some [], apiKey = Some (lit ''sk-x''), config_model = Some (lit ''gpt-4'')\<rparr>"

section \<open>Properties\<close>

subsection \<open>C1: the finish-reason table\<close>

text \<open>
  C1, as stated, sends every non-null string other than the three known ones to
  \<open>OTHER\<close>. The empty string is such a string, and the guard \<open>!reason\<close> sends it to
  \<open>undefined\<close>.
\<close>

theorem convertFinishReason_empty_string_counterexample:
  "[] \<noteq> lit ''stop'' \<and> [] \<noteq> lit ''length'' \<and> [] \<noteq> lit ''content_filter'' \<and>
   convertFinishReason (Some []) = None \<and> convertFinishReason (Some []) \<noteq> Some OTHER"
  by (simp add: convertFinishReason_def lit_def)

text \<open>
  C1 (amended): the conversion returns \<open>STOP\<close> for "stop", \<open>MAX_TOKENS\<close> for "length",
  \<open>SAFETY\<close> for "content_filter", nothing for \<open>null\<close>, an absent reason and the empty
  string, and \<open>OTHER\<close> for every other non-empty string, case-sensitively. Being a
  function of its argument alone, it is total and deterministic.
\<close>

theorem convertFinishReason_table:
  "convertFinishReason (Some (lit ''stop'')) = Some STOP \<and>
   convertFinishReason (Some (lit ''length'')) = Some MAX_TOKENS \<and>
   convertFinishReason (Some (lit ''content_filter'')) = Some SAFETY \<and>
   convertFinishReason None = None \<and>
   convertFinishReason (Some []) = None \<and>
   (\<forall>r. r \<noteq> [] \<and> r \<noteq> lit ''stop'' \<and> r \<noteq> lit ''length'' \<and> r \<noteq> lit ''content_filter''
      \<longrightarrow> convertFinishReason (Some r) = Some OTHER)"
  by (simp add: convertFinishReason_def lit_def)

theorem convertFinishReason_table_witness:
  "lit ''STOP'' \<noteq> [] \<and> lit ''STOP'' \<noteq> lit ''stop'' \<and> lit ''STOP'' \<noteq> lit ''length'' \<and>
   lit ''STOP'' \<noteq> lit ''content_filter'' \<and>
   convertFinishReason (Some (lit ''STOP'')) = Some OTHER \<and>
   convertFinishReason (Some (lit ''tool_calls'')) = Some OTHER"
  using convertFinishReason_table by (simp add: lit_def)

subsection \<open>C2: the stream of three chunks\<close>

lemma streamLoop_textChunk:
  "streamLoop (textChunk text reason # rest) ending =
     (if text \<noteq> []
      then (textResponse text (convertFinishReason reason) # fst (streamLoop rest ending),
            snd (streamLoop rest ending))
      else streamLoop rest ending)"
  by (simp add: textChunk_def textResponse_def deltaHasContent_def
      convertStreamChunkToGeminiResponse_def orEmpty_def split: prod.split)

text \<open>
  C2, as stated, has the second response carry \<open>STOP\<close>. The reason "stop" arrives on the
  third chunk, whose text is empty, and that chunk is skipped whole: the second response
  comes from the second chunk, whose reason is \<open>null\<close>.
\<close>

theorem stream_second_response_counterexample:
  "(case generateContentStream
       (defaultGenerator
          ((failingClient (NonError []))
             \<lparr>chat_stream := (\<lambda>m ms. Inr ([textChunk (lit ''a'') None, textChunk (lit ''b'') None,
                                  textChunk [] (Some (lit ''stop''))], None))\<rparr>))
       hiRequest of
     (yielded, e) \<Rightarrow>
       length yielded = 2 \<and> map finishReason (candidates (yielded ! 1)) = [None] \<and>
       map finishReason (candidates (yielded ! 1)) \<noteq> [Some STOP])"
  by (simp add: generateContentStream_def defaultGenerator_def failingClient_def
      streamLoop_textChunk convertFinishReason_def textResponse_def lit_def
      del: streamLoop.simps(2))

text \<open>
  C2 (amended): for the native stream of three chunks with texts "a", "b", "" and finish
  reasons null, null, "stop", the generator yields exactly two responses, for "a" and for
  "b", neither of which carries a finish reason, and then ends normally.
\<close>

theorem stream_three_chunks:
  "generateContentStream
     \<lparr>client = \<lparr>chat_create = cc,
                chat_stream = (\<lambda>m ms. Inr ([textChunk (lit ''a'') None, textChunk (lit ''b'') None,
                                  textChunk [] (Some (lit ''stop''))], None)),
                embeddings_create = ec\<rparr>,
      model = m, embeddingModel = em\<rparr> request =
   ([textResponse (lit ''a'') None, textResponse (lit ''b'') None], None)"
  by (simp add: generateContentStream_def streamLoop_textChunk convertFinishReason_def lit_def
      del: streamLoop.simps(2))

subsection \<open>C4: the native message list\<close>

lemma role_is_model: "(extractRoleFromContent c = lit ''model'') = hasModelRole c"
  by (cases c)
    (simp_all add: extractRoleFromContent_def hasModelRole_def lit_def split: option.split)

lemma pushContent_append: "pushContent messages c = messages @ spec_contentMessages c"
  by (simp add: pushContent_def spec_contentMessages_def role_is_model Let_def)

lemma foldl_pushContent:
  "foldl pushContent messages cs = messages @ concat (map spec_contentMessages cs)"
  by (induction cs arbitrary: messages) (simp_all add: pushContent_append)

lemma falsy_text: "\<not> truthy c \<Longrightarrow> extractTextFromContent c = []"
  by (cases c) (simp_all add: truthy_def extractTextFromContent_def)

lemma pushSystemInstruction_Nil: "pushSystemInstruction [] request = spec_systemMessages request"
  by (auto simp: pushSystemInstruction_def spec_systemMessages_def Let_def falsy_text
      split: option.split)

text \<open>
  C4: the message list is the system message, when the system instruction has non-empty
  text, followed by the messages of the contents in order, a single content standing for
  the one-element sequence: none for a content with empty text, one otherwise, of role
  \<open>assistant\<close> for the role \<open>model\<close> and \<open>user\<close> for every other role or none.
\<close>

theorem convertToOpenAIMessages_spec:
  "convertToOpenAIMessages request =
     spec_systemMessages request @
     concat (map spec_contentMessages (contentsArray (contents request)))"
proof (cases "contents request")
  case (JString s)
  then show ?thesis
    by (simp add: convertToOpenAIMessages_def contentsArray_def pushSystemInstruction_Nil
        pushContent_append truthy_def spec_contentMessages_def extractTextFromContent_def)
next
  case (JArray cs)
  then show ?thesis
    by (simp add: convertToOpenAIMessages_def contentsArray_def pushSystemInstruction_Nil
        foldl_pushContent)
next
  case (JObject ps r t)
  then show ?thesis
    by (simp add: convertToOpenAIMessages_def contentsArray_def pushSystemInstruction_Nil
        pushContent_append)
qed

subsection \<open>C3: request conversion, then response conversion\<close>

lemma hiRequest_messages:
  "convertToOpenAIMessages hiRequest = [\<lparr>msg_role = lit ''user'', msg_content = lit ''hi''\<rparr>]"
  by (simp add: hiRequest_def convertToOpenAIMessages_def pushSystemInstruction_def
      pushContent_def extractTextFromContent_def extractRoleFromContent_def joinPartTexts_def
      extractTextFromPart_def lit_def)

lemma convertToGeminiResponse_Cons:
  "choices response = choice # others \<Longrightarrow>
   convertToGeminiResponse response =
     Inr \<lparr>candidates =
            [\<lparr>cand_content = modelContent (orEmpty (message_content choice)),
              finishReason = convertFinishReason (finish_reason choice), index = 0\<rparr>],
          usageMetadata =
            map_option
              (\<lambda>u. \<lparr>promptTokenCount = prompt_tokens u, candidatesTokenCount = completion_tokens u,
                    totalTokenCount = total_tokens u\<rparr>)
              (usage response)\<rparr>"
  by (simp add: convertToGeminiResponse_def split: option.split)

text \<open>
  C3, as stated, has every native response give one candidate. A response whose
  \<open>choices\<close> is empty gives none: reading \<open>choices[0].message\<close> raises, and
  \<open>generateContent\<close> fails with the wrapped error.
\<close>

theorem convertToGeminiResponse_no_choice_counterexample:
  "convertToGeminiResponse \<lparr>choices = [], usage = None\<rparr> = Inl undefinedMessageError \<and>
   generateContent
     (defaultGenerator
        ((failingClient (NonError []))
           \<lparr>chat_create := (\<lambda>m ms. Inr \<lparr>choices = [], usage = None\<rparr>)\<rparr>))
     hiRequest =
   Inl (JsError (generatePrefix @ errorText undefinedMessageError))"
  by (simp add: convertToGeminiResponse_def generateContent_def defaultGenerator_def
      failingClient_def)

text \<open>
  C3 (amended): the request with the one user content "hi" converts to the one user
  message "hi"; when the vendor answers it with a response whose first choice has the
  finish reason "stop", \<open>generateContent\<close> returns a response with exactly one candidate,
  of index 0, finish reason \<open>STOP\<close> and content role \<open>model\<close>; and every native response
  that carries at least one choice converts to exactly one candidate, of index 0 and
  content role \<open>model\<close>, whose finish reason is the conversion of the first choice's.
\<close>

theorem generateContent_one_candidate:
  "convertToOpenAIMessages hiRequest = [\<lparr>msg_role = lit ''user'', msg_content = lit ''hi''\<rparr>] \<and>
   (\<forall>this response choice others.
      chat_create (client this) (model this)
        [\<lparr>msg_role = lit ''user'', msg_content = lit ''hi''\<rparr>] = Inr response \<and>
      choices response = choice # others \<and> finish_reason choice = Some (lit ''stop'') \<longrightarrow>
      (\<exists>r. generateContent this hiRequest = Inr r \<and>
           map index (candidates r) = [0] \<and>
           map finishReason (candidates r) = [Some STOP] \<and>
           map (\<lambda>c. role_of (cand_content c)) (candidates r) = [Some (lit ''model'')])) \<and>
   (\<forall>response choice others.
      choices response = choice # others \<longrightarrow>
      (\<exists>r. convertToGeminiResponse response = Inr r \<and>
           map index (candidates r) = [0] \<and>
           map finishReason (candidates r) = [convertFinishReason (finish_reason choice)] \<and>
           map (\<lambda>c. role_of (cand_content c)) (candidates r) = [Some (lit ''model'')]))"
proof (intro conjI allI impI)
  show "convertToOpenAIMessages hiRequest = [\<lparr>msg_role = lit ''user'', msg_content = lit ''hi''\<rparr>]"
    by (rule hiRequest_messages)
next
  fix this :: "'n OpenAIContentGenerator" and response choice others
  assume h: "chat_create (client this) (model this)
        [\<lparr>msg_role = lit ''user'', msg_content = lit ''hi''\<rparr>] = Inr response \<and>
      choices response = choice # others \<and> finish_reason choice = Some (lit ''stop'')"
  then have "convertFinishReason (finish_reason choice) = Some STOP"
    by (simp add: convertFinishReason_def lit_def)
  with h show "\<exists>r. generateContent this hiRequest = Inr r \<and>
           map index (candidates r) = [0] \<and>
           map finishReason (candidates r) = [Some STOP] \<and>
           map (\<lambda>c. role_of (cand_content c)) (candidates r) = [Some (lit ''model'')]"
    by (simp add: generateContent_def hiRequest_messages convertToGeminiResponse_Cons
        modelContent_def)
next
  fix response :: ChatCompletion and choice others
  assume "choices response = choice # others"
  then show "\<exists>r. convertToGeminiResponse response = Inr r \<and>
           map index (candidates r) = [0] \<and>
           map finishReason (candidates r) = [convertFinishReason (finish_reason choice)] \<and>
           map (\<lambda>c. role_of (cand_content c)) (candidates r) = [Some (lit ''model'')]"
    by (simp add: convertToGeminiResponse_Cons modelContent_def)
qed

theorem generateContent_one_candidate_witness:
  "chat_create
     (client (defaultGenerator
        ((failingClient (NonError [])) \<lparr>chat_create := (\<lambda>m ms. Inr stopCompletion)\<rparr>)))
     (model (defaultGenerator
        ((failingClient (NonError [])) \<lparr>chat_create := (\<lambda>m ms. Inr stopCompletion)\<rparr>)))
     [\<lparr>msg_role = lit ''user'', msg_content = lit ''hi''\<rparr>] = Inr stopCompletion \<and>
   choices stopCompletion =
     [\<lparr>message_content = Some (lit ''hello''), finish_reason = Some (lit ''stop'')\<rparr>] \<and>
   (\<exists>r. generateContent
          (defaultGenerator
             ((failingClient (NonError [])) \<lparr>chat_create := (\<lambda>m ms. Inr stopCompletion)\<rparr>))
          hiRequest = Inr r \<and>
        map index (candidates r) = [0] \<and>
        map finishReason (candidates r) = [Some STOP] \<and>
        map (\<lambda>c. role_of (cand_content c)) (candidates r) = [Some (lit ''model'')])"
  (is "?call = Inr stopCompletion \<and> ?first \<and> ?concl")
proof -
  have call: "?call = Inr stopCompletion"
    by (simp add: defaultGenerator_def failingClient_def)
  have first: "?first"
    by (simp add: stopCompletion_def)
  have "?concl"
    using generateContent_one_candidate [THEN conjunct2, THEN conjunct1, rule_format,
        OF conjI [OF call]] first
    by simp
  with call first show ?thesis by simp
qed

subsection \<open>The loops of the two text extractions\<close>

lemma appendPartText_eq: "appendPartText text part = text @ spaced (partTexts part)"
  by (cases part) (simp_all add: appendPartText_def partTexts_def split: option.split)

lemma foldl_appendPartText:
  "foldl appendPartText text ps = text @ spaced (concat (map partTexts ps))"
  by (induction ps arbitrary: "text") (simp_all add: appendPartText_eq)

lemma appendContentText_eq: "appendContentText text c = text @ spaced (contentTexts c)"
  by (cases c)
    (simp_all add: appendContentText_def contentTexts_def foldl_appendPartText split: option.split)

lemma foldl_appendContentText:
  "foldl appendContentText text cs = text @ spaced (concat (map contentTexts cs))"
  by (induction cs arbitrary: "text") (simp_all add: appendContentText_eq)

lemma extractTextFromRequest_eq: "extractTextFromRequest request = spaced (requestTexts request)"
  by (simp add: extractTextFromRequest_def requestTexts_def foldl_appendContentText)

lemma spaced_spaceJoined: "ts \<noteq> [] \<Longrightarrow> spaced ts = spec_spaceJoined ts @ lit '' ''"
  by (induction ts rule: spec_spaceJoined.induct) simp_all

lemma ceil_quarter: "nat \<lceil>real n / 4\<rceil> = (n + 3) div 4"
proof -
  have "\<lceil>real n / 4\<rceil> = - ((- int n) div 4)"
    using ceiling_divide_eq_div [of "int n" 4, where ?'a = real] by simp
  then show ?thesis by linarith
qed

lemma first_append:
  "(case xs @ ys of [] \<Rightarrow> None | s # _ \<Rightarrow> Some s) =
   (case xs of [] \<Rightarrow> (case ys of [] \<Rightarrow> None | s # _ \<Rightarrow> Some s) | s # _ \<Rightarrow> Some s)"
  by (cases xs) simp_all

lemma first_case:
  "(case (case xs of [] \<Rightarrow> None | s # _ \<Rightarrow> Some s) of Some s \<Rightarrow> Some s | None \<Rightarrow> r) =
   (case xs of [] \<Rightarrow> r | s # _ \<Rightarrow> Some s)"
  by (cases xs) simp_all

lemma firstTextOfParts_eq:
  "firstTextOfParts ps = (case concat (map partTexts ps) of [] \<Rightarrow> None | s # _ \<Rightarrow> Some s)"
  by (induction ps) (simp_all add: partTexts_def split: jsvalue.split option.split)

lemma firstTextOfContents_Cons:
  "firstTextOfContents (c # rest) =
     (case contentTexts c of [] \<Rightarrow> firstTextOfContents rest | s # _ \<Rightarrow> Some s)"
  by (cases c) (simp_all add: contentTexts_def firstTextOfParts_eq first_case split: option.split)

lemma firstTextOfContents_eq:
  "firstTextOfContents cs = (case concat (map contentTexts cs) of [] \<Rightarrow> None | s # _ \<Rightarrow> Some s)"
proof (induction cs)
  case Nil
  show ?case by simp
next
  case (Cons c rest)
  then show ?case
    by (cases "contentTexts c") (simp_all add: firstTextOfContents_Cons del: firstTextOfContents.simps)
qed

lemma extractTextFromEmbedRequest_eq:
  "extractTextFromEmbedRequest request = (case requestTexts request of [] \<Rightarrow> [] | s # _ \<Rightarrow> s)"
proof -
  have "firstTextOfContents (contentsArray (contents request)) =
      (case requestTexts request of [] \<Rightarrow> None | s # _ \<Rightarrow> Some s)"
    by (simp only: firstTextOfContents_eq requestTexts_def)
  then show ?thesis
    by (cases "requestTexts request") (simp_all add: extractTextFromEmbedRequest_def)
qed

lemma contentTexts_no_parts: "\<not> carriesParts c \<Longrightarrow> contentTexts c = []"
  by (cases c) (auto simp: carriesParts_def contentTexts_def split: option.splits)

lemma concat_contentTexts_filter:
  "concat (map contentTexts (filter carriesParts cs)) = concat (map contentTexts cs)"
  by (induction cs) (simp_all add: contentTexts_no_parts)

lemma concat_contentTexts_bare:
  "list_all isBareString cs \<Longrightarrow> concat (map contentTexts cs) = []"
  by (induction cs) (auto simp: isBareString_def contentTexts_def split: jsvalue.splits)

subsection \<open>C6: the token estimate\<close>

lemma countTokens_eq:
  "countTokens this request =
     Inr \<lparr>totalTokens = nat \<lceil>real (length (spaced (requestTexts request))) / 4\<rceil>\<rparr>"
  by (simp add: countTokens_def extractTextFromRequest_eq)

text \<open>
  C6, as stated, takes the length of the space-joined text. For the one part "abcd" the
  space-joined text is "abcd", of length 4 and estimate 1; the loop appends a space after
  every text, so the text counted is "abcd " and the estimate 2.
\<close>

theorem countTokens_space_joined_counterexample:
  "countTokens (defaultGenerator (failingClient (NonError []))) abcdRequest =
     Inr \<lparr>totalTokens = 2\<rparr> \<and>
   requestTexts abcdRequest = [lit ''abcd''] \<and>
   nat \<lceil>real (length (spec_spaceJoined (requestTexts abcdRequest))) / 4\<rceil> = 1"
  by (simp add: countTokens_def extractTextFromRequest_def abcdRequest_def contentsArray_def
      appendContentText_def appendPartText_def requestTexts_def contentTexts_def partTexts_def
      lit_def)

text \<open>
  C6 (amended): \<open>countTokens\<close> returns \<open>ceil(characterLength / 4)\<close>, where the text
  counted is every non-empty part text of the contents, in order, each followed by one
  space (the space-joined text and one trailing space, when there is any text); it
  returns 0 for a request none of whose parts carries text, and the estimate does not
  decrease when the length of the extracted text does not.
\<close>

theorem countTokens_estimate:
  "countTokens this request =
     Inr \<lparr>totalTokens = nat \<lceil>real (length (spaced (requestTexts request))) / 4\<rceil>\<rparr> \<and>
   spaced (requestTexts request) =
     (if requestTexts request = [] then []
      else spec_spaceJoined (requestTexts request) @ lit '' '') \<and>
   (requestTexts request = [] \<longrightarrow> countTokens this request = Inr \<lparr>totalTokens = 0\<rparr>) \<and>
   (\<forall>request'.
      length (extractTextFromRequest request) \<le> length (extractTextFromRequest request') \<longrightarrow>
      (\<exists>n n'. countTokens this request = Inr \<lparr>totalTokens = n\<rparr> \<and>
              countTokens this request' = Inr \<lparr>totalTokens = n'\<rparr> \<and> n \<le> n'))"
proof (intro conjI allI impI)
  show "countTokens this request =
     Inr \<lparr>totalTokens = nat \<lceil>real (length (spaced (requestTexts request))) / 4\<rceil>\<rparr>"
    by (rule countTokens_eq)
next
  show "spaced (requestTexts request) =
     (if requestTexts request = [] then []
      else spec_spaceJoined (requestTexts request) @ lit '' '')"
    using spaced_spaceJoined [of "requestTexts request"] by (cases "requestTexts request = []") simp_all 
next
  assume "requestTexts request = []"
  then show "countTokens this request = Inr \<lparr>totalTokens = 0\<rparr>"
    by (simp add: countTokens_eq)
next
  fix request'
  assume le: "length (extractTextFromRequest request) \<le> length (extractTextFromRequest request')"
  have "nat \<lceil>real (length (extractTextFromRequest request)) / 4\<rceil>
      \<le> nat \<lceil>real (length (extractTextFromRequest request')) / 4\<rceil>"
    using le by (simp add: ceil_quarter)
  then show "\<exists>n n'. countTokens this request = Inr \<lparr>totalTokens = n\<rparr> \<and>
              countTokens this request' = Inr \<lparr>totalTokens = n'\<rparr> \<and> n \<le> n'"
    by (simp add: countTokens_def)
qed

theorem countTokens_estimate_witness:
  "requestTexts emptyTextRequest = [] \<and>
   countTokens (defaultGenerator (failingClient (NonError []))) emptyTextRequest =
     Inr \<lparr>totalTokens = 0\<rparr> \<and>
   length (extractTextFromRequest emptyTextRequest) \<le> length (extractTextFromRequest abcdRequest) \<and>
   (\<exists>n n'. countTokens (defaultGenerator (failingClient (NonError []))) emptyTextRequest =
             Inr \<lparr>totalTokens = n\<rparr> \<and>
           countTokens (defaultGenerator (failingClient (NonError []))) abcdRequest =
             Inr \<lparr>totalTokens = n'\<rparr> \<and> n \<le> n')"
proof -
  have e: "requestTexts emptyTextRequest = []"
    by (simp add: requestTexts_def emptyTextRequest_def contentsArray_def contentTexts_def
        partTexts_def)
  have le: "length (extractTextFromRequest emptyTextRequest)
      \<le> length (extractTextFromRequest abcdRequest)"
    by (simp add: extractTextFromRequest_eq e)
  note t = countTokens_estimate [of "defaultGenerator (failingClient (NonError []))" emptyTextRequest]
  from t e have z: "countTokens (defaultGenerator (failingClient (NonError []))) emptyTextRequest =
     Inr \<lparr>totalTokens = 0\<rparr>" by blast
  from t le have "\<exists>n n'. countTokens (defaultGenerator (failingClient (NonError []))) emptyTextRequest =
             Inr \<lparr>totalTokens = n\<rparr> \<and>
           countTokens (defaultGenerator (failingClient (NonError []))) abcdRequest =
             Inr \<lparr>totalTokens = n'\<rparr> \<and> n \<le> n'" by blast
  with e le z show ?thesis by blast
qed

subsection \<open>C7: the embedding of the first text\<close>

lemma embedContent_eq:
  "embedContent this request =
     (case embeddings_create (client this) (embeddingModel this)
             (case requestTexts request of [] \<Rightarrow> [] | s # _ \<Rightarrow> s) of
        Inl error \<Rightarrow> Inl (handleError error)
      | Inr response \<Rightarrow>
          Inr \<lparr>embeddings =
                 [\<lparr>embedding_values = (case data response of [] \<Rightarrow> [] | d # _ \<Rightarrow> embedding d)\<rparr>]\<rparr>)"
  by (simp add: embedContent_def extractTextFromEmbedRequest_eq)

lemma emptyThenX_texts: "requestTexts emptyThenXRequest = [lit ''x'']"
  by (simp add: requestTexts_def emptyThenXRequest_def contentsArray_def contentTexts_def
      partTexts_def lit_def)

text \<open>
  C7: \<open>embedContent\<close> sends to the vendor the first non-empty text of the request, scanning
  contents and parts in order ("x" for a first content of empty text and a second of text
  "x"), and returns one embedding: the values of the first data entry of the native
  response, or the empty vector, not a failure, when the response has no data entry.
\<close>

theorem embedContent_first_text:
  "extractTextFromEmbedRequest request = (case requestTexts request of [] \<Rightarrow> [] | s # _ \<Rightarrow> s) \<and>
   embedContent this request =
     (case embeddings_create (client this) (embeddingModel this)
             (case requestTexts request of [] \<Rightarrow> [] | s # _ \<Rightarrow> s) of
        Inl error \<Rightarrow> Inl (handleError error)
      | Inr response \<Rightarrow>
          Inr \<lparr>embeddings =
                 [\<lparr>embedding_values = (case data response of [] \<Rightarrow> [] | d # _ \<Rightarrow> embedding d)\<rparr>]\<rparr>) \<and>
   (embeddings_create (client this) (embeddingModel this)
        (extractTextFromEmbedRequest request) = Inr \<lparr>data = []\<rparr> \<longrightarrow>
      embedContent this request = Inr \<lparr>embeddings = [\<lparr>embedding_values = []\<rparr>]\<rparr>) \<and>
   (\<forall>d ds. embeddings_create (client this) (embeddingModel this)
        (extractTextFromEmbedRequest request) = Inr \<lparr>data = d # ds\<rparr> \<longrightarrow>
      embedContent this request = Inr \<lparr>embeddings = [\<lparr>embedding_values = embedding d\<rparr>]\<rparr>) \<and>
   extractTextFromEmbedRequest emptyThenXRequest = lit ''x''"
  by (simp add: embedContent_eq extractTextFromEmbedRequest_eq emptyThenX_texts)

theorem embedContent_first_text_witness:
  "embeddings_create (client (defaultGenerator xEmbeddingClient))
     (embeddingModel (defaultGenerator xEmbeddingClient))
     (extractTextFromEmbedRequest emptyThenXRequest) =
     Inr \<lparr>data = [\<lparr>embedding = [1, 2, 3]\<rparr>, \<lparr>embedding = [4]\<rparr>]\<rparr> \<and>
   embedContent (defaultGenerator xEmbeddingClient) emptyThenXRequest =
     Inr \<lparr>embeddings = [\<lparr>embedding_values = [1, 2, 3]\<rparr>]\<rparr> \<and>
   embeddings_create (client (defaultGenerator xEmbeddingClient))
     (embeddingModel (defaultGenerator xEmbeddingClient))
     (extractTextFromEmbedRequest emptyTextRequest) = Inr \<lparr>data = []\<rparr> \<and>
   embedContent (defaultGenerator xEmbeddingClient) emptyTextRequest =
     Inr \<lparr>embeddings = [\<lparr>embedding_values = []\<rparr>]\<rparr>"
proof -
  note t1 = embedContent_first_text [of emptyThenXRequest "defaultGenerator xEmbeddingClient"]
  note t2 = embedContent_first_text [of emptyTextRequest "defaultGenerator xEmbeddingClient"]
  have x: "extractTextFromEmbedRequest emptyThenXRequest = lit ''x''"
    using t1 by blast
  have e: "extractTextFromEmbedRequest emptyTextRequest = []"
    using t2 by (simp add: requestTexts_def emptyTextRequest_def contentsArray_def
        contentTexts_def partTexts_def)
  have c1: "embeddings_create (client (defaultGenerator xEmbeddingClient))
     (embeddingModel (defaultGenerator xEmbeddingClient))
     (extractTextFromEmbedRequest emptyThenXRequest) =
     Inr \<lparr>data = [\<lparr>embedding = [1, 2, 3]\<rparr>, \<lparr>embedding = [4]\<rparr>]\<rparr>"
    by (simp add: x defaultGenerator_def xEmbeddingClient_def)
  have c2: "embeddings_create (client (defaultGenerator xEmbeddingClient))
     (embeddingModel (defaultGenerator xEmbeddingClient))
     (extractTextFromEmbedRequest emptyTextRequest) = Inr \<lparr>data = []\<rparr>"
    by (simp add: e defaultGenerator_def xEmbeddingClient_def lit_def)
  from t1 c1 have r1: "embedContent (defaultGenerator xEmbeddingClient) emptyThenXRequest =
     Inr \<lparr>embeddings = [\<lparr>embedding_values = embedding \<lparr>embedding = [1, 2, 3]\<rparr>\<rparr>]\<rparr>"
    by blast
  from t2 c2 have r2: "embedContent (defaultGenerator xEmbeddingClient) emptyTextRequest =
     Inr \<lparr>embeddings = [\<lparr>embedding_values = []\<rparr>]\<rparr>"
    by blast
  from c1 c2 r1 r2 show ?thesis by simp
qed

subsection \<open>C10: contents without a parts array\<close>

text \<open>
  C10: both extractions scan only the content entries that are objects carrying a parts
  array; a bare string or an array contributes no text, so for a request all of whose
  contents are bare strings \<open>countTokens\<close> returns 0 and \<open>embedContent\<close> sends the empty
  string to the vendor.
\<close>

theorem contents_without_parts_ignored:
  "appendContentText text0 (JString s) = text0 \<and>
   appendContentText text0 (JArray ps) = text0 \<and>
   firstTextOfContents (JString s # rest) = firstTextOfContents rest \<and>
   firstTextOfContents (JArray ps # rest) = firstTextOfContents rest \<and>
   extractTextFromRequest request =
     foldl appendContentText [] (filter carriesParts (contentsArray (contents request))) \<and>
   extractTextFromEmbedRequest request =
     (case firstTextOfContents (filter carriesParts (contentsArray (contents request))) of
        Some t \<Rightarrow> t
      | None \<Rightarrow> []) \<and>
   (list_all isBareString (contentsArray (contents request)) \<longrightarrow>
      countTokens this request = Inr \<lparr>totalTokens = 0\<rparr> \<and>
      embedContent this request =
        (case embeddings_create (client this) (embeddingModel this) [] of
           Inl error \<Rightarrow> Inl (handleError error)
         | Inr response \<Rightarrow>
             Inr \<lparr>embeddings =
                    [\<lparr>embedding_values =
                        (case data response of [] \<Rightarrow> [] | d # _ \<Rightarrow> embedding d)\<rparr>]\<rparr>))"
proof (intro conjI impI)
  show "appendContentText text0 (JString s) = text0"
    by (simp add: appendContentText_def)
  show "appendContentText text0 (JArray ps) = text0"
    by (simp add: appendContentText_def)
  show "firstTextOfContents (JString s # rest) = firstTextOfContents rest"
    by simp
  show "firstTextOfContents (JArray ps # rest) = firstTextOfContents rest"
    by simp
  show "extractTextFromRequest request =
     foldl appendContentText [] (filter carriesParts (contentsArray (contents request)))"
    by (simp add: extractTextFromRequest_def foldl_appendContentText concat_contentTexts_filter)
  show "extractTextFromEmbedRequest request =
     (case firstTextOfContents (filter carriesParts (contentsArray (contents request))) of
        Some t \<Rightarrow> t
      | None \<Rightarrow> [])"
    by (simp add: extractTextFromEmbedRequest_def firstTextOfContents_eq
        concat_contentTexts_filter)
next
  assume "list_all isBareString (contentsArray (contents request))"
  then have "requestTexts request = []"
    unfolding requestTexts_def by (rule concat_contentTexts_bare)
  then show "countTokens this request = Inr \<lparr>totalTokens = 0\<rparr>"
    and "embedContent this request =
        (case embeddings_create (client this) (embeddingModel this) [] of
           Inl error \<Rightarrow> Inl (handleError error)
         | Inr response \<Rightarrow>
             Inr \<lparr>embeddings =
                    [\<lparr>embedding_values =
                        (case data response of [] \<Rightarrow> [] | d # _ \<Rightarrow> embedding d)\<rparr>]\<rparr>)"
    by (simp_all add: countTokens_def extractTextFromRequest_eq embedContent_eq)
qed

theorem contents_without_parts_ignored_witness:
  "list_all isBareString (contentsArray (contents stringsRequest)) \<and>
   countTokens (defaultGenerator xEmbeddingClient) stringsRequest = Inr \<lparr>totalTokens = 0\<rparr> \<and>
   embedContent (defaultGenerator xEmbeddingClient) stringsRequest =
     Inr \<lparr>embeddings = [\<lparr>embedding_values = []\<rparr>]\<rparr>"
proof -
  have h: "list_all isBareString (contentsArray (contents stringsRequest))"
    by (simp add: stringsRequest_def contentsArray_def isBareString_def)
  from contents_without_parts_ignored [of _ _ _ _ stringsRequest "defaultGenerator xEmbeddingClient"] h
  have "countTokens (defaultGenerator xEmbeddingClient) stringsRequest = Inr \<lparr>totalTokens = 0\<rparr> \<and>
      embedContent (defaultGenerator xEmbeddingClient) stringsRequest =
        (case embeddings_create (client (defaultGenerator xEmbeddingClient))
                (embeddingModel (defaultGenerator xEmbeddingClient)) [] of
           Inl error \<Rightarrow> Inl (handleError error)
         | Inr response \<Rightarrow>
             Inr \<lparr>embeddings =
                    [\<lparr>embedding_values =
                        (case data response of [] \<Rightarrow> [] | d # _ \<Rightarrow> embedding d)\<rparr>]\<rparr>)"
    by blast
  with h show ?thesis
    by (simp add: defaultGenerator_def xEmbeddingClient_def lit_def)
qed

subsection \<open>C8: the provider of a model\<close>

lemma inferLoop_find:
  "inferLoop entries m = map_option fst (find (\<lambda>entry. m \<in> set (snd entry)) entries)"
  by (induction entries m rule: inferLoop.induct) simp_all

lemma inferLoop_None: "(inferLoop entries m = None) = (\<forall>entry \<in> set entries. m \<notin> set (snd entry))"
  by (induction entries m rule: inferLoop.induct) simp_all

lemma inferLoop_first:
  "i < length entries \<Longrightarrow> m \<in> set (snd (entries ! i)) \<Longrightarrow>
   (\<forall>j < i. m \<notin> set (snd (entries ! j))) \<Longrightarrow>
   inferLoop entries m = Some (fst (entries ! i))"
proof (induction entries m arbitrary: i rule: inferLoop.induct)
  case (1 m)
  then show ?case by simp
next
  case (2 provider models rest m)
  show ?case
  proof (cases i)
    case 0
    with 2 show ?thesis by simp
  next
    case (Suc k)
    with 2(3,4) have notin: "m \<notin> set models" and rest: "\<forall>j < k. m \<notin> set (snd (rest ! j))"
      by auto
    from notin have "\<not> List.member models m" by simp
    with 2(1) [of k] 2(2,3) Suc rest show ?thesis by simp
  qed
qed

lemma inferLoop_unique:
  "(p, ms) \<in> set entries \<Longrightarrow> m \<in> set ms \<Longrightarrow>
   (\<forall>entry \<in> set entries. m \<in> set (snd entry) \<longrightarrow> fst entry = p) \<Longrightarrow>
   inferLoop entries m = Some p"
  by (induction entries m rule: inferLoop.induct) auto

text \<open>
  C8: \<open>inferProviderFromModel\<close> returns the first provider, in declaration order, whose
  model list contains the model string exactly: the provider at index \<open>i\<close> when no
  earlier list contains it, \<open>null\<close> when no list does, and the provider \<open>p\<close> when the
  model is listed under \<open>p\<close> only.
\<close>

theorem inferProviderFromModel_first_match:
  "inferProviderFromModel m =
     map_option fst (find (\<lambda>entry. m \<in> set (snd entry)) SUPPORTED_MODELS) \<and>
   (\<forall>i. i < length SUPPORTED_MODELS \<and> m \<in> set (snd (SUPPORTED_MODELS ! i)) \<and>
        (\<forall>j < i. m \<notin> set (snd (SUPPORTED_MODELS ! j))) \<longrightarrow>
        inferProviderFromModel m = Some (fst (SUPPORTED_MODELS ! i))) \<and>
   ((\<forall>entry \<in> set SUPPORTED_MODELS. m \<notin> set (snd entry)) \<longrightarrow> inferProviderFromModel m = None) \<and>
   (\<forall>p ms. (p, ms) \<in> set SUPPORTED_MODELS \<and> m \<in> set ms \<and>
        (\<forall>entry \<in> set SUPPORTED_MODELS. m \<in> set (snd entry) \<longrightarrow> fst entry = p) \<longrightarrow>
        inferProviderFromModel m = Some p)"
proof (intro conjI allI impI)
  show "inferProviderFromModel m =
     map_option fst (find (\<lambda>entry. m \<in> set (snd entry)) SUPPORTED_MODELS)"
    by (simp only: inferProviderFromModel_def inferLoop_find)
next
  fix i
  assume "i < length SUPPORTED_MODELS \<and> m \<in> set (snd (SUPPORTED_MODELS ! i)) \<and>
        (\<forall>j < i. m \<notin> set (snd (SUPPORTED_MODELS ! j)))"
  then show "inferProviderFromModel m = Some (fst (SUPPORTED_MODELS ! i))"
    unfolding inferProviderFromModel_def by (intro inferLoop_first) blast+
next
  assume "\<forall>entry \<in> set SUPPORTED_MODELS. m \<notin> set (snd entry)"
  then show "inferProviderFromModel m = None"
    by (simp only: inferProviderFromModel_def inferLoop_None)
next
  fix p ms
  assume "(p, ms) \<in> set SUPPORTED_MODELS \<and> m \<in> set ms \<and>
        (\<forall>entry \<in> set SUPPORTED_MODELS. m \<in> set (snd entry) \<longrightarrow> fst entry = p)"
  then show "inferProviderFromModel m = Some p"
    unfolding inferProviderFromModel_def by (intro inferLoop_unique [of p ms]) blast+
qed

theorem inferProviderFromModel_first_match_witness:
  "0 < length SUPPORTED_MODELS \<and>
   lit ''gemini-2.5-pro'' \<in> set (snd (SUPPORTED_MODELS ! 0)) \<and>
   lit ''gemini-2.5-pro'' \<in> set (snd (SUPPORTED_MODELS ! 2)) \<and>
   inferProviderFromModel (lit ''gemini-2.5-pro'') = Some GEMINI \<and>
   (OPENAI, [lit ''gpt-4'', lit ''gpt-4-turbo'', lit ''gpt-4o'', lit ''gpt-4o-mini'',
             lit ''gpt-3.5-turbo'']) \<in> set SUPPORTED_MODELS \<and>
   inferProviderFromModel (lit ''gpt-4'') = Some OPENAI \<and>
   inferProviderFromModel (lit ''unknown-model'') = None"
proof -
  have a: "0 < length SUPPORTED_MODELS \<and>
      lit ''gemini-2.5-pro'' \<in> set (snd (SUPPORTED_MODELS ! 0)) \<and>
      (\<forall>j < 0. lit ''gemini-2.5-pro'' \<notin> set (snd (SUPPORTED_MODELS ! j)))"
    by (simp add: SUPPORTED_MODELS_def)
  have a2: "lit ''gemini-2.5-pro'' \<in> set (snd (SUPPORTED_MODELS ! 2))"
    by (simp add: SUPPORTED_MODELS_def)
  have g: "fst (SUPPORTED_MODELS ! 0) = GEMINI"
    by (simp add: SUPPORTED_MODELS_def)
  from inferProviderFromModel_first_match [of "lit ''gemini-2.5-pro''"] a g
  have r1: "inferProviderFromModel (lit ''gemini-2.5-pro'') = Some GEMINI"
    by metis
  have b: "(OPENAI, [lit ''gpt-4'', lit ''gpt-4-turbo'', lit ''gpt-4o'', lit ''gpt-4o-mini'',
             lit ''gpt-3.5-turbo'']) \<in> set SUPPORTED_MODELS \<and>
      lit ''gpt-4'' \<in> set [lit ''gpt-4'', lit ''gpt-4-turbo'', lit ''gpt-4o'', lit ''gpt-4o-mini'',
             lit ''gpt-3.5-turbo''] \<and>
      (\<forall>entry \<in> set SUPPORTED_MODELS. lit ''gpt-4'' \<in> set (snd entry) \<longrightarrow> fst entry = OPENAI)"
    by (simp add: SUPPORTED_MODELS_def lit_def)
  from inferProviderFromModel_first_match [of "lit ''gpt-4''"] b
  have r2: "inferProviderFromModel (lit ''gpt-4'') = Some OPENAI"
    by blast
  have c: "\<forall>entry \<in> set SUPPORTED_MODELS. lit ''unknown-model'' \<notin> set (snd entry)"
    by (simp add: SUPPORTED_MODELS_def lit_def)
  from inferProviderFromModel_first_match [of "lit ''unknown-model''"] c
  have r3: "inferProviderFromModel (lit ''unknown-model'') = None"
    by blast
  from a a2 r1 b r2 r3 show ?thesis by blast
qed

subsection \<open>C9: the validation of a configuration\<close>

text \<open>
  C9, as stated, reports a missing provider as "Provider is required" and a provider that
  is present and not in the registry as "Unsupported provider". The empty string is
  present and not in the registry; \<open>!config.provider\<close> reports it as "Provider is
  required", and the last test, guarded by \<open>config.provider &&\<close>, does not report it.
\<close>

theorem validateConfig_empty_provider_counterexample:
  "provider emptyProviderConfig = Some [] \<and>
   spec_validationErrors emptyProviderConfig = [lit ''Unsupported provider: ''] \<and>
   validateConfig emptyProviderConfig = \<lparr>valid = False, errors = [lit ''Provider is required'']\<rparr> \<and>
   errors (validateConfig emptyProviderConfig) \<noteq> spec_validationErrors emptyProviderConfig"
  by (simp add: emptyProviderConfig_def spec_validationErrors_def validateConfig_def falsy_def
      getSupportedProviders_def GEMINI_def OPENAI_def VERTEX_AI_def lit_def)

text \<open>
  C9 (amended): \<open>validateConfig\<close> accumulates, in this order, "Provider is required" when
  the provider is missing or empty, "API key is required" when the key is missing or
  empty, "Model is required" when the model is missing or empty, and "Unsupported
  provider: p" when the provider \<open>p\<close> is non-empty and not in the registry; \<open>valid\<close> holds
  exactly when no error was accumulated. As a function of the configuration alone it
  neither raises nor has an effect.
\<close>

theorem validateConfig_errors:
  "errors (validateConfig cfg) =
     (if provider cfg = None \<or> provider cfg = Some [] then [lit ''Provider is required'']
      else []) @
     (if apiKey cfg = None \<or> apiKey cfg = Some [] then [lit ''API key is required''] else []) @
     (if config_model cfg = None \<or> config_model cfg = Some [] then [lit ''Model is required'']
      else []) @
     (case provider cfg of
        None \<Rightarrow> []
      | Some p \<Rightarrow>
          if p \<noteq> [] \<and> p \<notin> set getSupportedProviders then [lit ''Unsupported provider: '' @ p]
          else []) \<and>
   valid (validateConfig cfg) = (errors (validateConfig cfg) = []) \<and>
   validateConfig \<lparr>provider = None, apiKey = Some [], config_model = Some []\<rparr> =
     \<lparr>valid = False,
      errors = [lit ''Provider is required'', lit ''API key is required'',
                lit ''Model is required'']\<rparr> \<and>
   validateConfig
     \<lparr>provider = Some OPENAI, apiKey = Some (lit ''sk-x''), config_model = Some (lit ''gpt-4'')\<rparr> =
     \<lparr>valid = True, errors = []\<rparr>"
proof (intro conjI)
  have f: "\<And>x. falsy x = (x = None \<or> x = Some [])"
    by (simp add: falsy_def split: option.split)
  show "errors (validateConfig cfg) =
     (if provider cfg = None \<or> provider cfg = Some [] then [lit ''Provider is required'']
      else []) @
     (if apiKey cfg = None \<or> apiKey cfg = Some [] then [lit ''API key is required''] else []) @
     (if config_model cfg = None \<or> config_model cfg = Some [] then [lit ''Model is required'']
      else []) @
     (case provider cfg of
        None \<Rightarrow> []
      | Some p \<Rightarrow>
          if p \<noteq> [] \<and> p \<notin> set getSupportedProviders then [lit ''Unsupported provider: '' @ p]
          else [])"
    by (simp add: validateConfig_def f Let_def split: option.split)
  show "valid (validateConfig cfg) = (errors (validateConfig cfg) = [])"
    by (simp add: validateConfig_def Let_def)
  show "validateConfig \<lparr>provider = None, apiKey = Some [], config_model = Some []\<rparr> =
     \<lparr>valid = False,
      errors = [lit ''Provider is required'', lit ''API key is required'',
                lit ''Model is required'']\<rparr>"
    by (simp add: validateConfig_def falsy_def)
  show "validateConfig
     \<lparr>provider = Some OPENAI, apiKey = Some (lit ''sk-x''), config_model = Some (lit ''gpt-4'')\<rparr> =
     \<lparr>valid = True, errors = []\<rparr>"
    by (simp add: validateConfig_def falsy_def getSupportedProviders_def OPENAI_def lit_def)
qed

subsection \<open>C5: what the operations raise\<close>

lemma streamLoop_ending: "snd (streamLoop chunks ending) = ending"
  by (induction chunks)
    (auto simp: convertStreamChunkToGeminiResponse_def split: option.split list.split prod.split)

lemma decimal_429: "decimal 429 = lit ''429''"
  by (simp add: decimal.simps lit_def)

text \<open>
  C5, as stated, has all four operations pass an \<open>Error\<close> through unchanged and give an
  \<open>APIError\<close> its status code. \<open>generateContent\<close> does neither: it raises a new error
  whose message is its prefix and the message of the value caught.
\<close>

theorem generateContent_error_counterexample:
  "generateContent (defaultGenerator (failingClient (JsError (lit ''boom'')))) hiRequest =
     Inl (JsError (generatePrefix @ lit ''boom'')) \<and>
   generatePrefix @ lit ''boom'' \<noteq> lit ''boom'' \<and>
   generateContent
     (defaultGenerator (failingClient (APIError (lit ''rate limited'') (Some 429)))) hiRequest =
     Inl (JsError (generatePrefix @ lit ''rate limited'')) \<and>
   handleError (APIError (lit ''rate limited'') (Some 429)) =
     JsError (lit ''OpenAI API Error: rate limited (429)'') \<and>
   generatePrefix @ lit ''rate limited'' \<noteq> lit ''OpenAI API Error: rate limited (429)''"
  by (simp add: generateContent_def defaultGenerator_def failingClient_def errorText_def
      handleError_def statusText_def decimal_429 generatePrefix_def lit_def)

text \<open>
  C5 (amended): \<open>embedContent\<close> raises \<open>handleError\<close> of what the vendor call throws: for
  an \<open>APIError\<close> a new error with the vendor message and the status code, an \<open>Error\<close>
  unchanged, any other value wrapped generically; \<open>countTokens\<close> makes no vendor call
  and returns. \<open>generateContent\<close> and \<open>generateContentStream\<close> raise, for whatever the
  vendor call or the vendor stream throws, a single new error whose message is the prefix
  of the call followed by the message of an \<open>Error\<close> or the string form of another value.
\<close>

theorem vendor_errors:
  "handleError (APIError message st) =
     JsError (lit ''OpenAI API Error: '' @ message @ lit '' ('' @ statusText st @ lit '')'') \<and>
   handleError (JsError message) = JsError message \<and>
   handleError (NonError s) = JsError (lit ''Unknown OpenAI error: '' @ s) \<and>
   (\<forall>e. embeddings_create (client this) (embeddingModel this)
          (extractTextFromEmbedRequest crequest) = Inl e \<longrightarrow>
        embedContent this crequest = Inl (handleError e)) \<and>
   (\<exists>n. countTokens this crequest = Inr n) \<and>
   errorText (APIError message st) = message \<and>
   errorText (JsError message) = message \<and>
   errorText (NonError s) = s \<and>
   (\<forall>e. chat_create (client this) (model this) (convertToOpenAIMessages request) = Inl e \<longrightarrow>
        generateContent this request = Inl (JsError (generatePrefix @ errorText e))) \<and>
   (\<forall>e. chat_stream (client this) (model this) (convertToOpenAIMessages request) = Inl e \<longrightarrow>
        generateContentStream this request = ([], Some (JsError (streamPrefix @ errorText e)))) \<and>
   (\<forall>chunks e.
        chat_stream (client this) (model this) (convertToOpenAIMessages request) =
          Inr (chunks, Some e) \<longrightarrow>
        snd (generateContentStream this request) = Some (JsError (streamPrefix @ errorText e)))"
proof (intro conjI allI impI)
  fix chunks e
  assume "chat_stream (client this) (model this) (convertToOpenAIMessages request) =
          Inr (chunks, Some e)"
  moreover have "snd (streamLoop chunks (Some e)) = Some e"
    by (rule streamLoop_ending)
  ultimately show "snd (generateContentStream this request) =
      Some (JsError (streamPrefix @ errorText e))"
    by (cases "streamLoop chunks (Some e)") (simp add: generateContentStream_def)
qed (simp_all add: handleError_def errorText_def embedContent_def countTokens_def
    generateContent_def generateContentStream_def)

theorem vendor_errors_witness:
  "embeddings_create (client (defaultGenerator (failingClient (APIError (lit ''rate limited'') (Some 429)))))
     (embeddingModel (defaultGenerator (failingClient (APIError (lit ''rate limited'') (Some 429)))))
     (extractTextFromEmbedRequest abcdRequest) = Inl (APIError (lit ''rate limited'') (Some 429)) \<and>
   embedContent (defaultGenerator (failingClient (APIError (lit ''rate limited'') (Some 429))))
     abcdRequest = Inl (JsError (lit ''OpenAI API Error: rate limited (429)'')) \<and>
   chat_create (client (defaultGenerator (failingClient (APIError (lit ''rate limited'') (Some 429)))))
     (model (defaultGenerator (failingClient (APIError (lit ''rate limited'') (Some 429)))))
     (convertToOpenAIMessages hiRequest) = Inl (APIError (lit ''rate limited'') (Some 429)) \<and>
   generateContent (defaultGenerator (failingClient (APIError (lit ''rate limited'') (Some 429))))
     hiRequest = Inl (JsError (generatePrefix @ lit ''rate limited'')) \<and>
   generateContentStream (defaultGenerator (failingClient (APIError (lit ''rate limited'') (Some 429))))
     hiRequest = ([], Some (JsError (streamPrefix @ lit ''rate limited'')))"
  (is "?c1 \<and> ?r1 \<and> ?c2 \<and> ?r2 \<and> ?r3")
proof -
  let ?e = "APIError (lit ''rate limited'') (Some 429)"
  let ?g = "defaultGenerator (failingClient ?e)"
  note t = vendor_errors [of "lit ''rate limited''" "Some 429" _ ?g abcdRequest hiRequest]
  have c1: ?c1 and c2: ?c2
    and c3: "chat_stream (client ?g) (model ?g) (convertToOpenAIMessages hiRequest) = Inl ?e"
    by (simp_all add: defaultGenerator_def failingClient_def)
  from t c1 have "embedContent ?g abcdRequest = Inl (handleError ?e)" by blast
  moreover from t have "handleError ?e =
      JsError (lit ''OpenAI API Error: '' @ lit ''rate limited'' @ lit '' ('' @ statusText (Some 429) @ lit '')'')"
    by blast
  ultimately have r1: ?r1
    by (simp add: statusText_def decimal_429 lit_def)
  from t have et: "errorText ?e = lit ''rate limited''" by blast
  from t c2 have "generateContent ?g hiRequest = Inl (JsError (generatePrefix @ errorText ?e))"
    by blast
  with et have r2: ?r2 by simp
  from t c3 have "generateContentStream ?g hiRequest =
      ([], Some (JsError (streamPrefix @ errorText ?e)))"
    by blast
  with et have r3: ?r3 by simp
  from c1 r1 c2 r2 r3 show ?thesis by blast
qed

end
